theory Spec2Isabelle
  imports Main
begin

section \<open>JavaScript values and the object store\<close>

text \<open>
  \<^verbatim>\<open>EasyTest.looksLike\<close> (src/lib/easy-test.js, lines 229-246) inspects two
  JavaScript values. A value is a primitive or a reference to an object of the store; a
  function is an object that can be called, and whether a reference is callable never
  changes, so the reference carries it. The payload of a number is never read by the
  code; integers stand for the numbers of the examples.
\<close>

type_synonym addr = nat

datatype js_value =
    JUndefined
  | JNull
  | JBoolean bool
  | JNumber int
  | JString string
  | JSymbol nat
  | JBigInt int
  | JObject addr
  | JFunction addr

text \<open>
  What a call can throw: the two errors of the language that occur here, or a value
  thrown by code outside the repository.
\<close>

datatype exception = TypeError | RangeError | Thrown js_value

text \<open>
  A member of an object holds a value, or it is an accessor whose getter throws when the
  member is read: \<^verbatim>\<open>caller\<close> and \<^verbatim>\<open>arguments\<close>, which a strict-mode
  function inherits from \<^verbatim>\<open>Function.prototype\<close>, throw a TypeError. A getter
  that returns a value and changes nothing reads like a held value and is one here.
  Getters and proxies that run code with effects on the store are outside this model; the
  specification takes the subject as names with values.
\<close>

datatype js_member = Value js_value | Throws exception

text \<open>
  An object is seen by the code through three operations only:
  \<^verbatim>\<open>Object.getOwnPropertyNames\<close> (its own property names, in the engine's order),
  the \<^verbatim>\<open>in\<close> operator and the read \<^verbatim>\<open>object[property]\<close>. The last
  two look through the prototype chain, so \<open>members\<close> is the table of every member
  reachable from the object, own or inherited, and \<open>names\<close> lists the own ones.
\<close>

record js_object =
  names :: "string list"
  members :: "string \<rightharpoonup> js_member"

text \<open>
  The store maps addresses to objects; addresses below \<open>next_addr\<close> are allocated.
  \<open>Object_prototype\<close>, \<open>Error_prototype\<close> and \<open>Array_prototype\<close> are the
  members a new plain object, a new \<^verbatim>\<open>Error\<close> and a new array inherit, and
  \<open>boxed v\<close> are the members a primitive \<open>v\<close> shows when it is read like an
  object.
\<close>

record heap =
  cells :: "addr \<Rightarrow> js_object"
  next_addr :: addr
  Object_prototype :: "string \<rightharpoonup> js_member"
  Error_prototype :: "string \<rightharpoonup> js_member"
  Array_prototype :: "string \<rightharpoonup> js_member"
  boxed :: "js_value \<Rightarrow> string \<rightharpoonup> js_member"

text \<open>A call either returns a value or throws; both leave a store behind.\<close>

type_synonym 'a completion = "(exception + 'a) \<times> heap"

text \<open>The \<^verbatim>\<open>typeof\<close> operator.\<close>

fun typeof :: "js_value \<Rightarrow> string" where
  "typeof JUndefined = ''undefined''"
| "typeof JNull = ''object''"
| "typeof (JBoolean b) = ''boolean''"
| "typeof (JNumber n) = ''number''"
| "typeof (JString s) = ''string''"
| "typeof (JSymbol n) = ''symbol''"
| "typeof (JBigInt n) = ''bigint''"
| "typeof (JObject a) = ''object''"
| "typeof (JFunction a) = ''function''"

text \<open>The address behind a value of type Object, functions included.\<close>

fun object_of :: "js_value \<Rightarrow> addr option" where
  "object_of (JObject a) = Some a"
| "object_of (JFunction a) = Some a"
| "object_of v = None"

text \<open>
  \<^verbatim>\<open>property in object\<close>: a TypeError unless the right operand is an object.
  An accessor is a member like any other: the operator does not run it.
\<close>

definition has_property :: "heap \<Rightarrow> string \<Rightarrow> js_value \<Rightarrow> exception + bool" where
  "has_property h property object =
     (case object_of object of
        None \<Rightarrow> Inl TypeError
      | Some a \<Rightarrow> Inr (members (cells h a) property \<noteq> None))"

text \<open>
  Reading what a table holds under a name: \<^verbatim>\<open>undefined\<close> when there is no
  member, the value of a member that holds one, the exception of a getter that throws.
\<close>

fun read_member :: "js_member option \<Rightarrow> exception + js_value" where
  "read_member None = Inr JUndefined"
| "read_member (Some (Value v)) = Inr v"
| "read_member (Some (Throws e)) = Inl e"

definition get_member :: "heap \<Rightarrow> addr \<Rightarrow> string \<Rightarrow> exception + js_value" where
  "get_member h a property = read_member (members (cells h a) property)"

text \<open>
  \<^verbatim>\<open>value[property]\<close> on any value: a TypeError on \<^verbatim>\<open>undefined\<close> and
  \<^verbatim>\<open>null\<close>, the object's member on an object, the boxed member otherwise.
\<close>

definition get :: "heap \<Rightarrow> js_value \<Rightarrow> string \<Rightarrow> exception + js_value" where
  "get h v property =
     (case object_of v of
        Some a \<Rightarrow> get_member h a property
      | None \<Rightarrow>
          (if v = JUndefined \<or> v = JNull then Inl TypeError
           else read_member (boxed h v property)))"

text \<open>
  \<^verbatim>\<open>new Error(message)\<close> allocates a fresh object whose own member is the
  message (engines add own members such as \<^verbatim>\<open>stack\<close>, which nothing here reads).
\<close>

definition new_Error :: "heap \<Rightarrow> string \<Rightarrow> js_value completion" where
  "new_Error h message =
     (Inr (JObject (next_addr h)),
      h\<lparr>cells := (cells h)(next_addr h :=
           \<lparr>names = [''message''],
            members = (Error_prototype h)(''message'' \<mapsto> Value (JString message))\<rparr>),
        next_addr := Suc (next_addr h)\<rparr>)"

section \<open>Splitting a string\<close>

text \<open>
  \<^verbatim>\<open>S.split(sep)\<close> for a separator of one character: the pieces between
  consecutive occurrences of the separator. \<open>split_from piece\<close> scans the rest of the
  string with the piece read so far.
\<close>

fun split_from :: "string \<Rightarrow> char \<Rightarrow> string \<Rightarrow> string list" where
  "split_from piece sep [] = [piece]"
| "split_from piece sep (c # cs) =
     (if c = sep then piece # split_from [] sep cs
      else split_from (piece @ [c]) sep cs)"

definition String_split :: "string \<Rightarrow> char \<Rightarrow> string list" where
  "String_split s sep = split_from [] sep s"

section \<open>looksLike\<close>

text \<open>
  The two messages of the source. The specification calls an Error with the first
  message a MissingMember failure naming the property, and one with the second a
  WrongKind failure naming the property and the expected kind.
\<close>

definition MissingMember :: "string \<Rightarrow> string" where
  "MissingMember property =
     ''Expected object to have the property '' @ [CHR 0x27] @ property @ [CHR 0x27] @ ''.''"

definition WrongKind :: "string \<Rightarrow> string \<Rightarrow> string" where
  "WrongKind property type =
     ''Expected property '' @ [CHR 0x27] @ property @ [CHR 0x27] @ '' to be of ''
       @ ''type '' @ type @ ''.''"

text \<open>
  The inner loop (lines 234-244) over the properties still to be checked: \<open>None\<close>
  when the loop ends without a \<^verbatim>\<open>return\<close>. The read of line 240 runs an
  accessor, whose exception leaves the function.
\<close>

fun looksLike_properties ::
  "heap \<Rightarrow> js_value \<Rightarrow> string \<Rightarrow> string list \<Rightarrow> js_value completion option" where
  "looksLike_properties h object type [] = None"
| "looksLike_properties h object type (property # properties) =
     (case has_property h property object of
        Inl e \<Rightarrow> Some (Inl e, h)
      | Inr False \<Rightarrow> Some (new_Error h (MissingMember property))
      | Inr True \<Rightarrow>
          (case get h object property of
             Inl e \<Rightarrow> Some (Inl e, h)
           | Inr v \<Rightarrow>
               if typeof v \<noteq> type then Some (new_Error h (WrongKind property type))
               else looksLike_properties h object type properties))"

text \<open>
  The outer loop (lines 231-245) over the types still to be checked.
  \<^verbatim>\<open>spec[type].split(' ')\<close> is a TypeError when the entry is not a string
  (\<^verbatim>\<open>undefined\<close>, \<^verbatim>\<open>null\<close>, a number, a boolean and a plain object have no
  \<^verbatim>\<open>split\<close>; an object that brings its own is outside this model). A function
  that ends without \<^verbatim>\<open>return\<close> returns \<^verbatim>\<open>undefined\<close>.
\<close>

fun looksLike_types ::
  "heap \<Rightarrow> js_value \<Rightarrow> addr \<Rightarrow> string list \<Rightarrow> js_value completion" where
  "looksLike_types h object spec [] = (Inr JUndefined, h)"
| "looksLike_types h object spec (type # types) =
     (case get_member h spec type of
        Inl e \<Rightarrow> (Inl e, h)
      | Inr entry \<Rightarrow>
          (case entry of
             JString s \<Rightarrow>
               (case looksLike_properties h object type (String_split s (CHR '' '')) of
                  Some result \<Rightarrow> result
                | None \<Rightarrow> looksLike_types h object spec types)
           | _ \<Rightarrow> (Inl TypeError, h)))"

text \<open>
  \<^verbatim>\<open>EasyTest.looksLike(object, spec)\<close>. The specification is an object (the
  documented parameter type); the subject is any value.
\<close>

definition looksLike :: "heap \<Rightarrow> js_value \<Rightarrow> addr \<Rightarrow> js_value completion" where
  "looksLike h object spec = looksLike_types h object spec (names (cells h spec))"

section \<open>The adapters\<close>

text \<open>
  The adapters resolve a name through the host framework's injector
  (\<^verbatim>\<open>inject\<close>, \<^verbatim>\<open>$rootScope\<close>, \<^verbatim>\<open>$controller\<close>), which is not part of the
  repository and is taken as a parameter: \<open>instantiate\<close> gives the new scope and the
  controller built on it, \<open>resolve\<close> the service registered under a name. Both may
  throw and may change the store. \<open>ToNumber\<close> is the engine's conversion of a string
  or an object to a number (it parses the string, or asks the object's
  \<^verbatim>\<open>valueOf\<close> and \<^verbatim>\<open>toString\<close>): the integer the number is, or \<open>None\<close>
  when it is not an integer (\<^verbatim>\<open>NaN\<close>, an infinity, a fraction). It reads
  the store and changes nothing.
\<close>

record host =
  instantiate :: "heap \<Rightarrow> string \<Rightarrow> (js_value \<times> js_value) completion"
  resolve :: "heap \<Rightarrow> string \<Rightarrow> js_value completion"
  ToNumber :: "heap \<Rightarrow> js_value \<Rightarrow> exception + int option"

text \<open>Allocation of the object literal \<^verbatim>\<open>{ $scope: ..., controller: ... }\<close>.\<close>

definition new_context :: "heap \<Rightarrow> js_value \<Rightarrow> js_value \<Rightarrow> js_value completion" where
  "new_context h scope controller =
     (Inr (JObject (next_addr h)),
      h\<lparr>cells := (cells h)(next_addr h :=
           \<lparr>names = [''$scope'', ''controller''],
            members = (Object_prototype h)
              (''$scope'' \<mapsto> Value scope, ''controller'' \<mapsto> Value controller)\<rparr>),
        next_addr := Suc (next_addr h)\<rparr>)"

definition createTestContext :: "host \<Rightarrow> heap \<Rightarrow> string \<Rightarrow> js_value completion" where
  "createTestContext fw h controller =
     (case instantiate fw h controller of
        (Inl e, h') \<Rightarrow> (Inl e, h')
      | (Inr (scope, instance), h') \<Rightarrow> new_context h' scope instance)"

definition getController :: "host \<Rightarrow> heap \<Rightarrow> string \<Rightarrow> js_value completion" where
  "getController fw h controllerName =
     (case createTestContext fw h controllerName of
        (Inl e, h') \<Rightarrow> (Inl e, h')
      | (Inr context, h') \<Rightarrow>
          (case get h' context ''controller'' of
             Inl e \<Rightarrow> (Inl e, h')
           | Inr instance \<Rightarrow> (Inr instance, h')))"

subsection \<open>injectify: the services stored in an array\<close>

text \<open>
  \<^verbatim>\<open>injectify\<close> (lines 29-38) collects the services in \<^verbatim>\<open>var obj = []\<close>,
  an array, by \<^verbatim>\<open>obj[injectibles[i]] = arguments[i]\<close>. On an array the name
  decides what the assignment does. An array index is the decimal numeral, without
  leading zeros, of an integer below \<open>2^32 - 1\<close>.
\<close>

definition decimal :: "string \<Rightarrow> nat" where
  "decimal s = foldl (\<lambda>n c. 10 * n + (of_char c - 48)) 0 s"

definition is_array_index :: "string \<Rightarrow> bool" where
  "is_array_index s \<longleftrightarrow>
     s \<noteq> [] \<and> list_all (\<lambda>c. c \<in> set ''0123456789'') s \<and>
     (s = ''0'' \<or> hd s \<noteq> CHR ''0'') \<and> decimal s < 4294967295"

text \<open>The literal \<^verbatim>\<open>[]\<close>: a new array, whose own member is its length 0.\<close>

definition new_array :: "heap \<Rightarrow> addr \<times> heap" where
  "new_array h =
     (next_addr h,
      h\<lparr>cells := (cells h)(next_addr h :=
           \<lparr>names = [''length''],
            members = (Array_prototype h)(''length'' \<mapsto> Value (JNumber 0))\<rparr>),
        next_addr := Suc (next_addr h)\<rparr>)"

text \<open>
  The number a value converts to: fixed by the language for \<^verbatim>\<open>undefined\<close>
  (\<^verbatim>\<open>NaN\<close>), \<^verbatim>\<open>null\<close>, booleans and numbers, a TypeError for symbols and
  bigints, the engine's conversion for strings and objects.
\<close>

definition to_number :: "host \<Rightarrow> heap \<Rightarrow> js_value \<Rightarrow> exception + int option" where
  "to_number fw h v =
     (case v of
        JUndefined \<Rightarrow> Inr None
      | JNull \<Rightarrow> Inr (Some 0)
      | JBoolean b \<Rightarrow> Inr (Some (if b then 1 else 0))
      | JNumber n \<Rightarrow> Inr (Some n)
      | JSymbol n \<Rightarrow> Inl TypeError
      | JBigInt n \<Rightarrow> Inl TypeError
      | _ \<Rightarrow> ToNumber fw h v)"

text \<open>
  Assigning to \<^verbatim>\<open>length\<close>: the value must convert to an integer from 0 to
  \<open>2^32 - 1\<close>, or the assignment throws a RangeError. The elements at and beyond the
  new length are deleted.
\<close>

definition set_length :: "host \<Rightarrow> heap \<Rightarrow> addr \<Rightarrow> js_value \<Rightarrow> exception + heap" where
  "set_length fw h a v =
     (case to_number fw h v of
        Inl e \<Rightarrow> Inl e
      | Inr None \<Rightarrow> Inl RangeError
      | Inr (Some n) \<Rightarrow>
          if n < 0 \<or> 4294967296 \<le> n then Inl RangeError
          else
            Inr (h\<lparr>cells := (cells h)(a :=
              \<lparr>names = filter (\<lambda>k. \<not> (is_array_index k \<and> nat n \<le> decimal k))
                         (names (cells h a)),
               members = (\<lambda>k. if k \<in> set (names (cells h a)) \<and> is_array_index k \<and>
                                   nat n \<le> decimal k
                                then None else members (cells h a) k)
                         (''length'' \<mapsto> Value (JNumber n))\<rparr>)\<rparr>))"

text \<open>
  Assigning to \<^verbatim>\<open>__proto__\<close> while the array inherits that accessor from
  \<^verbatim>\<open>Object.prototype\<close>: an object or \<^verbatim>\<open>null\<close> becomes the prototype, so
  the inherited members are now its members; any other value is ignored.
\<close>

definition set_prototype :: "heap \<Rightarrow> addr \<Rightarrow> js_value \<Rightarrow> heap" where
  "set_prototype h a v =
     (let own = members (cells h a) |` set (names (cells h a));
          inherited =
            (case object_of v of
               Some p \<Rightarrow>
                 (if members (cells h p) ''__proto__'' = None then members (cells h p)
                  else (members (cells h p))(''__proto__'' \<mapsto> Value v))
             | None \<Rightarrow> Map.empty)
      in if v = JNull \<or> object_of v \<noteq> None
         then h\<lparr>cells := (cells h)(a := (cells h a)\<lparr>members := inherited ++ own\<rparr>)\<rparr>
         else h)"

text \<open>
  Any other name becomes an own member holding the value. Own names are listed with the
  array indices first, in ascending order; a new index at or beyond the length moves the
  length behind it.
\<close>

definition define_own :: "heap \<Rightarrow> addr \<Rightarrow> string \<Rightarrow> js_value \<Rightarrow> heap" where
  "define_own h a name v =
     (let obj = cells h a;
          len = (case members obj ''length'' of Some (Value (JNumber n)) \<Rightarrow> nat n | _ \<Rightarrow> 0);
          names' =
            (if name \<in> set (names obj) then names obj
             else if is_array_index name
               then insort_key decimal name (filter is_array_index (names obj)) @
                    filter (\<lambda>k. \<not> is_array_index k) (names obj)
             else names obj @ [name]);
          members' = (members obj)(name \<mapsto> Value v)
      in h\<lparr>cells := (cells h)(a :=
           \<lparr>names = names',
            members =
              (if is_array_index name \<and> len \<le> decimal name
               then members'(''length'' \<mapsto> Value (JNumber (int (decimal name) + 1)))
               else members')\<rparr>)\<rparr>)"

text \<open>
  \<^verbatim>\<open>obj[name] = value\<close> on the array, in strict mode. Assigning to an inherited
  accessor of the throwing kind is a TypeError.
\<close>

definition put_array :: "host \<Rightarrow> heap \<Rightarrow> addr \<Rightarrow> string \<Rightarrow> js_value \<Rightarrow> exception + heap" where
  "put_array fw h a name v =
     (if name = ''length'' then set_length fw h a v
      else if name \<in> set (names (cells h a)) then Inr (define_own h a name v)
      else
        (case members (cells h a) name of
           Some (Throws e) \<Rightarrow> Inl TypeError
         | Some (Value inherited) \<Rightarrow>
             Inr (if name = ''__proto__'' then set_prototype h a v else define_own h a name v)
         | None \<Rightarrow> Inr (define_own h a name v)))"

text \<open>
  \<^verbatim>\<open>inject(injectibles)\<close> resolves the names in order and calls the callback,
  which stores each service under its name.
\<close>

fun resolve_all :: "host \<Rightarrow> heap \<Rightarrow> string list \<Rightarrow> js_value list completion" where
  "resolve_all fw h [] = (Inr [], h)"
| "resolve_all fw h (name # rest) =
     (case resolve fw h name of
        (Inl e, h') \<Rightarrow> (Inl e, h')
      | (Inr service, h') \<Rightarrow>
          (case resolve_all fw h' rest of
             (Inl e, h'') \<Rightarrow> (Inl e, h'')
           | (Inr services, h'') \<Rightarrow> (Inr (service # services), h'')))"

fun store_all ::
  "host \<Rightarrow> heap \<Rightarrow> addr \<Rightarrow> string list \<Rightarrow> js_value list \<Rightarrow> unit completion" where
  "store_all fw h obj (name # rest) (service # services) =
     (case put_array fw h obj name service of
        Inl e \<Rightarrow> (Inl e, h)
      | Inr h' \<Rightarrow> store_all fw h' obj rest services)"
| "store_all fw h obj rest services = (Inr (), h)"

text \<open>
  \<^verbatim>\<open>EasyTest.injectify(injectibles)\<close>. An exception of the callback leaves the
  store as the assignments before it made it. The names are a list here, so the
  \<^verbatim>\<open>push\<close> of the callback onto the caller's array is not seen.
\<close>

definition injectify :: "host \<Rightarrow> heap \<Rightarrow> string list \<Rightarrow> js_value completion" where
  "injectify fw h injectibles =
     (case new_array h of
        (obj, h1) \<Rightarrow>
          (case resolve_all fw h1 injectibles of
             (Inl e, h2) \<Rightarrow> (Inl e, h2)
           | (Inr services, h2) \<Rightarrow>
               (case store_all fw h2 obj injectibles services of
                  (Inl e, h3) \<Rightarrow> (Inl e, h3)
                | (Inr stored, h3) \<Rightarrow> (Inr (JObject obj), h3))))"

text \<open>\<^verbatim>\<open>EasyTest.injectify([ serviceName ])[serviceName]\<close>.\<close>

definition getService :: "host \<Rightarrow> heap \<Rightarrow> string \<Rightarrow> js_value completion" where
  "getService fw h serviceName =
     (case injectify fw h [serviceName] of
        (Inl e, h') \<Rightarrow> (Inl e, h')
      | (Inr obj, h') \<Rightarrow>
          (case get h' obj serviceName of
             Inl e \<Rightarrow> (Inl e, h')
           | Inr service \<Rightarrow> (Inr service, h')))"

subsection \<open>The three adapters\<close>

definition testScope :: "host \<Rightarrow> heap \<Rightarrow> js_value \<Rightarrow> addr \<Rightarrow> js_value completion" where
  "testScope fw h context scopeSpec =
     (case (case context of
              JString name \<Rightarrow> createTestContext fw h name
            | _ \<Rightarrow> (Inr context, h)) of
        (Inl e, h') \<Rightarrow> (Inl e, h')
      | (Inr context', h') \<Rightarrow>
          (case get h' context' ''$scope'' of
             Inl e \<Rightarrow> (Inl e, h')
           | Inr scope \<Rightarrow> looksLike h' scope scopeSpec))"

definition testController :: "host \<Rightarrow> heap \<Rightarrow> js_value \<Rightarrow> addr \<Rightarrow> js_value completion" where
  "testController fw h controller spec =
     (case (case controller of
              JString name \<Rightarrow> getController fw h name
            | _ \<Rightarrow> (Inr controller, h)) of
        (Inl e, h') \<Rightarrow> (Inl e, h')
      | (Inr controller', h') \<Rightarrow> looksLike h' controller' spec)"

definition testService :: "host \<Rightarrow> heap \<Rightarrow> js_value \<Rightarrow> addr \<Rightarrow> js_value completion" where
  "testService fw h service spec =
     (case (case service of
              JString name \<Rightarrow> getService fw h name
            | _ \<Rightarrow> (Inr service, h)) of
        (Inl e, h') \<Rightarrow> (Inl e, h')
      | (Inr service', h') \<Rightarrow> looksLike h' service' spec)"

section \<open>The vocabulary of the specification\<close>

text \<open>
  The specification describes a spec object by its entries, a list of kind names with
  their space-separated lists of member names, in key order. \<open>holds_spec\<close> says that
  the object at an address has exactly these entries, all of them strings.
\<close>

definition holds_spec :: "heap \<Rightarrow> addr \<Rightarrow> (string \<times> string) list \<Rightarrow> bool" where
  "holds_spec h spec entries \<longleftrightarrow>
     names (cells h spec) = map fst entries \<and>
     list_all (\<lambda>(type, listed).
        members (cells h spec) type = Some (Value (JString listed))) entries"

text \<open>
  The check order: the (kind, member) pairs in key order and, within a kind, in the
  order of the names of its list.
\<close>

definition check_order :: "(string \<times> string) list \<Rightarrow> (string \<times> string) list" where
  "check_order entries =
     concat (map (\<lambda>(type, listed). map (Pair type) (String_split listed (CHR '' ''))) entries)"

text \<open>
  A table of members passes a pair when the member holds a value of the expected kind.
  It violates the pair when the member is absent or holds a value of another kind, the
  two mismatches of the specification; \<open>failure\<close> is the message that describes the
  violation. A member whose read throws neither passes nor violates.
\<close>

fun passes :: "(string \<rightharpoonup> js_member) \<Rightarrow> string \<times> string \<Rightarrow> bool" where
  "passes table (type, property) =
     (case table property of Some (Value v) \<Rightarrow> typeof v = type | _ \<Rightarrow> False)"

fun violates :: "(string \<rightharpoonup> js_member) \<Rightarrow> string \<times> string \<Rightarrow> bool" where
  "violates table (type, property) =
     (case table property of
        None \<Rightarrow> True
      | Some (Value v) \<Rightarrow> typeof v \<noteq> type
      | Some (Throws e) \<Rightarrow> False)"

fun failure :: "(string \<rightharpoonup> js_member) \<Rightarrow> string \<times> string \<Rightarrow> string" where
  "failure table (type, property) =
     (if table property = None then MissingMember property else WrongKind property type)"

text \<open>
  A list of names has a stray space when it begins or ends with a space or has two
  spaces in a row.
\<close>

fun doubled :: "char \<Rightarrow> string \<Rightarrow> bool" where
  "doubled c (x # y # ys) = (x = c \<and> y = c \<or> doubled c (y # ys))"
| "doubled c ys = False"

definition stray_space :: "string \<Rightarrow> bool" where
  "stray_space s \<longleftrightarrow>
     s \<noteq> [] \<and> (hd s = CHR '' '' \<or> last s = CHR '' '' \<or> doubled (CHR '' '') s)"

text \<open>
  The three ways a call of looksLike ends, and the completion each one stands for in a
  given store: nothing returned, a new Error returned, an exception. \<open>stops\<close> is how
  the first pair that does not pass ends the call.
\<close>

datatype verdict = Pass | Failure string | Raised exception

fun deliver :: "heap \<Rightarrow> verdict \<Rightarrow> js_value completion" where
  "deliver h Pass = (Inr JUndefined, h)"
| "deliver h (Failure message) = new_Error h message"
| "deliver h (Raised e) = (Inl e, h)"

definition stops :: "(string \<rightharpoonup> js_member) \<Rightarrow> string \<times> string \<Rightarrow> verdict" where
  "stops table c =
     (case table (snd c) of
        Some (Throws e) \<Rightarrow> Raised e
      | _ \<Rightarrow> Failure (failure table c))"

text \<open>
  Two stores show the same inputs when the spec object and, if the subject is an
  object, the subject have the same contents in both.
\<close>

definition same_inputs :: "heap \<Rightarrow> heap \<Rightarrow> js_value \<Rightarrow> addr \<Rightarrow> bool" where
  "same_inputs h h2 object spec \<longleftrightarrow>
     cells h2 spec = cells h spec \<and>
     (case object_of object of None \<Rightarrow> True | Some a \<Rightarrow> cells h2 a = cells h a)"

section \<open>Example stores\<close>

text \<open>
  A store with the objects of the specification's scenarios. Addresses 0, 1 and 5 are
  functions (two methods of \<^verbatim>\<open>Object.prototype\<close> and the member
  \<^verbatim>\<open>foo\<close>); their own cells are never read and stay blank.
  \<^item> 2: \<^verbatim>\<open>{}\<close>
  \<^item> 3: \<^verbatim>\<open>{"function": "foo"}\<close>
  \<^item> 4: \<^verbatim>\<open>{foo: 1}\<close>
  \<^item> 6: \<^verbatim>\<open>{foo: function(){}, bar: "x"}\<close>
  \<^item> 7: \<^verbatim>\<open>{"function": "foo", "number": "bar"}\<close>
  \<^item> 8: \<^verbatim>\<open>{"function": "foo  bar"}\<close>, with two spaces
  \<^item> 9: \<^verbatim>\<open>{"function": "foo", "number": "foo"}\<close>
  \<^item> 10: the test context \<^verbatim>\<open>{$scope: <6>, controller: <4>}\<close>
\<close>

definition plain_object :: "heap \<Rightarrow> (string \<times> js_value) list \<Rightarrow> js_object" where
  "plain_object h properties =
     \<lparr>names = map fst properties,
      members = Object_prototype h ++ map_of (map (\<lambda>(name, v). (name, Value v)) properties)\<rparr>"

definition blank_store :: heap where
  "blank_store =
     \<lparr>cells = (\<lambda>a. \<lparr>names = [], members = Map.empty\<rparr>),
      next_addr = 2,
      Object_prototype =
        [''toString'' \<mapsto> Value (JFunction 0), ''hasOwnProperty'' \<mapsto> Value (JFunction 1)],
      Error_prototype =
        [''toString'' \<mapsto> Value (JFunction 0), ''hasOwnProperty'' \<mapsto> Value (JFunction 1),
         ''name'' \<mapsto> Value (JString ''Error''), ''message'' \<mapsto> Value (JString [])],
      Array_prototype =
        [''toString'' \<mapsto> Value (JFunction 0), ''hasOwnProperty'' \<mapsto> Value (JFunction 1)],
      boxed = (\<lambda>v. Map.empty)\<rparr>"

definition example_store :: heap where
  "example_store =
     blank_store\<lparr>cells := (cells blank_store)
        (2 := plain_object blank_store [],
         3 := plain_object blank_store [(''function'', JString ''foo'')],
         4 := plain_object blank_store [(''foo'', JNumber 1)],
         6 := plain_object blank_store [(''foo'', JFunction 5), (''bar'', JString ''x'')],
         7 := plain_object blank_store
                [(''function'', JString ''foo''), (''number'', JString ''bar'')],
         8 := plain_object blank_store [(''function'', JString ''foo  bar'')],
         9 := plain_object blank_store
                [(''function'', JString ''foo''), (''number'', JString ''foo'')],
         10 := plain_object blank_store [(''$scope'', JObject 6), (''controller'', JObject 4)]),
       next_addr := 11\<rparr>"

text \<open>
  The same store where the function at address 5 is a strict-mode function, with the
  throwing accessors \<^verbatim>\<open>caller\<close> and \<^verbatim>\<open>arguments\<close> it inherits, and
  with two more specs:
  \<^item> 11: \<^verbatim>\<open>{"function": "caller"}\<close>
  \<^item> 12: \<^verbatim>\<open>{"number": "length", "function": "caller"}\<close>
  \<^item> 13: the function's \<^verbatim>\<open>prototype\<close> object
\<close>

definition strict_store :: heap where
  "strict_store =
     example_store\<lparr>cells := (cells example_store)
        (5 := \<lparr>names = [''length'', ''name'', ''prototype''],
               members = (Object_prototype blank_store)
                 (''length'' \<mapsto> Value (JNumber 0), ''name'' \<mapsto> Value (JString ''foo''),
                  ''prototype'' \<mapsto> Value (JObject 13),
                  ''caller'' \<mapsto> Throws TypeError, ''arguments'' \<mapsto> Throws TypeError)\<rparr>,
         11 := plain_object blank_store [(''function'', JString ''caller'')],
         12 := plain_object blank_store
                 [(''number'', JString ''length''), (''function'', JString ''caller'')],
         13 := plain_object blank_store [(''constructor'', JFunction 5)]),
       next_addr := 14\<rparr>"

text \<open>
  A host whose injector always builds the scope 6 with the controller 4, and for which
  no string or object converts to an integer.
\<close>

definition example_host :: host where
  "example_host =
     \<lparr>instantiate = (\<lambda>h name. (Inr (JObject 6, JObject 4), h)),
      resolve = (\<lambda>h name. (Inr (JObject 4), h)),
      ToNumber = (\<lambda>h v. Inr None)\<rparr>"

lemmas example_simps = example_store_def blank_store_def plain_object_def looksLike_def
  String_split_def get_member_def has_property_def get_def holds_spec_def check_order_def

section \<open>Splitting: the pieces\<close>

lemma split_from_not_Nil: "split_from piece sep s \<noteq> []"
  by (induction s arbitrary: piece) auto

lemma split_from_length: "length (split_from piece sep s) = Suc (count_list s sep)"
  by (induction s arbitrary: piece) auto

lemma split_from_append:
  "split_from piece sep (u @ sep # v) = split_from piece sep u @ split_from [] sep v"
  by (induction u arbitrary: piece) auto

lemma split_from_no_sep:
  "sep \<notin> set piece \<Longrightarrow> \<forall>w\<in>set (split_from piece sep s). sep \<notin> set w"
proof (induction s arbitrary: piece)
  case Nil
  then show ?case by simp
next
  case (Cons c cs)
  show ?case
  proof (cases "c = sep")
    case True
    from Cons.IH [of "[]"] have "\<forall>w\<in>set (split_from [] sep cs). sep \<notin> set w" by simp
    with True Cons.prems show ?thesis by simp
  next
    case False
    with Cons.prems have "sep \<notin> set (piece @ [c])" by simp
    from Cons.IH [OF this] False show ?thesis by simp
  qed
qed

lemma split_from_join:
  "concat (map ((#) sep) (split_from piece sep s)) = sep # piece @ s"
  by (induction s arbitrary: piece) auto

lemma doubled_decompose: "doubled c s \<Longrightarrow> \<exists>u v. s = u @ c # c # v"
proof (induction c s rule: doubled.induct)
  case (1 c x y ys)
  show ?case
  proof (cases "x = c \<and> y = c")
    case True
    then have "x # y # ys = [] @ c # c # ys" by simp
    then show ?thesis by blast
  next
    case False
    with 1 obtain u v where "y # ys = u @ c # c # v" by auto
    then have "x # y # ys = (x # u) @ c # c # v" by simp
    then show ?thesis by blast
  qed
qed auto

lemma stray_space_empty_name:
  assumes "stray_space s"
  shows "[] \<in> set (String_split s (CHR '' ''))"
proof -
  from assms have ne: "s \<noteq> []"
    and cases: "hd s = CHR '' '' \<or> last s = CHR '' '' \<or> doubled (CHR '' '') s"
    by (simp_all add: stray_space_def)
  from cases show ?thesis
  proof (elim disjE)
    assume "hd s = CHR '' ''"
    with ne obtain cs where "s = CHR '' '' # cs" by (cases s) auto
    then show ?thesis by (simp add: String_split_def)
  next
    assume "last s = CHR '' ''"
    with ne have "s = butlast s @ CHR '' '' # []" by (metis append_butlast_last_id)
    then have "String_split s (CHR '' '') = split_from [] (CHR '' '') (butlast s) @ [[]]"
      unfolding String_split_def by (metis split_from_append split_from.simps(1))
    then show ?thesis by simp
  next
    assume "doubled (CHR '' '') s"
    then obtain u v where "s = u @ CHR '' '' # CHR '' '' # v"
      using doubled_decompose by blast
    then have "String_split s (CHR '' '') =
        split_from [] (CHR '' '') u @ [] # split_from [] (CHR '' '') v"
      by (simp add: String_split_def split_from_append)
    then show ?thesis by simp
  qed
qed

lemma check_order_member:
  "(type, listed) \<in> set entries \<Longrightarrow> p \<in> set (String_split listed (CHR '' '')) \<Longrightarrow>
   (type, p) \<in> set (check_order entries)"
  by (auto simp: check_order_def intro!: bexI [of _ "(type, listed)"])

lemma check_order_space_free:
  assumes "(type, p) \<in> set (check_order entries)"
  shows "CHR '' '' \<notin> set p"
proof -
  from assms obtain listed where "p \<in> set (String_split listed (CHR '' ''))"
    by (auto simp: check_order_def)
  with split_from_no_sep [of "CHR '' ''" "[]" listed] show ?thesis
    by (simp add: String_split_def)
qed

section \<open>The messages tell the failures apart\<close>

lemma MissingMember_inject: "MissingMember p = MissingMember q \<Longrightarrow> p = q"
  by (simp add: MissingMember_def)

lemma MissingMember_not_WrongKind: "MissingMember p \<noteq> WrongKind q t"
  by (simp add: MissingMember_def WrongKind_def)

lemma space_free_prefix:
  assumes "CHR '' '' \<notin> set p" and "CHR '' '' \<notin> set q" and "c \<noteq> CHR '' ''"
    and eq: "p @ c # CHR '' '' # x = q @ c # CHR '' '' # y"
  shows "p = q \<and> x = y"
proof -
  have cut: "takeWhile (\<lambda>k. k \<noteq> CHR '' '') (r @ c # CHR '' '' # z) = r @ [c]"
    if "CHR '' '' \<notin> set r" for r z
  proof -
    from that assms(3) have "\<forall>k\<in>set (r @ [c]). k \<noteq> CHR '' ''" by auto
    then have "takeWhile (\<lambda>k. k \<noteq> CHR '' '') ((r @ [c]) @ CHR '' '' # z) =
        (r @ [c]) @ takeWhile (\<lambda>k. k \<noteq> CHR '' '') (CHR '' '' # z)"
      by (intro takeWhile_append2) auto
    then show ?thesis by simp
  qed
  from eq have "takeWhile (\<lambda>k. k \<noteq> CHR '' '') (p @ c # CHR '' '' # x) =
      takeWhile (\<lambda>k. k \<noteq> CHR '' '') (q @ c # CHR '' '' # y)" by simp
  then have "p = q" by (simp add: cut [OF assms(1)] cut [OF assms(2)])
  with eq show ?thesis by simp
qed

lemma WrongKind_inject:
  assumes "CHR '' '' \<notin> set p" and "CHR '' '' \<notin> set q"
    and "WrongKind p t = WrongKind q u"
  shows "p = q \<and> t = u"
proof -
  from assms(3) have "p @ CHR 0x27 # CHR '' '' # (''to be of type '' @ t @ ''.'') =
      q @ CHR 0x27 # CHR '' '' # (''to be of type '' @ u @ ''.'')"
    by (simp add: WrongKind_def)
  from space_free_prefix [OF assms(1,2) _ this] show ?thesis by simp
qed



lemma new_Error_fresh:
  "fst (new_Error h message) = Inr (JObject (next_addr h))"
  "members (cells (snd (new_Error h message)) (next_addr h)) ''message'' =
     Some (Value (JString message))"
  by (simp_all add: new_Error_def)

section \<open>The loops stop at the first pair that does not pass\<close>

lemma find_first:
  "xs = before @ c # after \<Longrightarrow> \<forall>x\<in>set before. \<not> P x \<Longrightarrow> P c \<Longrightarrow> find P xs = Some c"
  by (induction before arbitrary: xs) auto

lemma find_append:
  "find P (xs @ ys) = (case find P xs of None \<Rightarrow> find P ys | Some x \<Rightarrow> Some x)"
  by (induction xs) auto

lemma find_decompose:
  "find P xs = Some c \<Longrightarrow>
   \<exists>before after. xs = before @ c # after \<and> (\<forall>x\<in>set before. \<not> P x) \<and> P c"
proof (induction xs)
  case Nil
  then show ?case by simp
next
  case (Cons x xs)
  show ?case
  proof (cases "P x")
    case True
    with Cons.prems have "x # xs = [] @ c # xs \<and> (\<forall>y\<in>set []. \<not> P y) \<and> P c" by simp
    then show ?thesis by blast
  next
    case False
    with Cons obtain before after
      where "xs = before @ c # after" "\<forall>y\<in>set before. \<not> P y" "P c" by auto
    with False have "x # xs = (x # before) @ c # after \<and> (\<forall>y\<in>set (x # before). \<not> P y) \<and> P c"
      by simp
    then show ?thesis by blast
  qed
qed

lemma violates_stops:
  assumes "violates table c"
  shows "\<not> passes table c" and "stops table c = Failure (failure table c)"
  using assms
  by (cases c; auto simp: stops_def split: option.splits js_member.splits)+

lemma properties_find:
  assumes "object_of object = Some a"
  shows "looksLike_properties h object type ps =
           map_option (\<lambda>c. deliver h (stops (members (cells h a)) c))
             (find (\<lambda>c. \<not> passes (members (cells h a)) c) (map (Pair type) ps))"
proof (induction ps)
  case Nil
  show ?case by simp
next
  case (Cons p ps)
  show ?case
  proof (cases "members (cells h a) p")
    case None
    with assms show ?thesis
      by (simp add: has_property_def stops_def)
  next
    case (Some m)
    show ?thesis
    proof (cases m)
      case (Value v)
      with Some assms Cons.IH show ?thesis
        by (simp add: has_property_def get_def get_member_def stops_def)
    next
      case (Throws e)
      with Some assms show ?thesis
        by (simp add: has_property_def get_def get_member_def stops_def)
    qed
  qed
qed

lemma types_find:
  assumes "object_of object = Some a"
    and "list_all (\<lambda>(type, listed).
           members (cells h spec) type = Some (Value (JString listed))) entries"
  shows "looksLike_types h object spec (map fst entries) =
           (case find (\<lambda>c. \<not> passes (members (cells h a)) c) (check_order entries) of
              None \<Rightarrow> (Inr JUndefined, h)
            | Some c \<Rightarrow> deliver h (stops (members (cells h a)) c))"
  using assms
proof (induction entries)
  case Nil
  then show ?case by (simp add: check_order_def)
next
  case (Cons entry entries)
  obtain type listed where entry: "entry = (type, listed)" by (cases entry)
  let ?ps = "String_split listed (CHR '' '')"
  let ?V = "\<lambda>c. \<not> passes (members (cells h a)) c"
  from Cons.prems entry have s: "get_member h spec type = Inr (JString listed)"
    by (simp add: get_member_def)
  from Cons.prems
  have rest: "list_all (\<lambda>(type, listed).
      members (cells h spec) type = Some (Value (JString listed))) entries"
    by simp
  have co: "check_order (entry # entries) = map (Pair type) ?ps @ check_order entries"
    by (simp add: check_order_def entry)
  have step: "looksLike_types h object spec (map fst (entry # entries)) =
      (case looksLike_properties h object type ?ps of
         Some result \<Rightarrow> result
       | None \<Rightarrow> looksLike_types h object spec (map fst entries))"
    by (simp add: entry s)
  show ?case
  proof (cases "find ?V (map (Pair type) ?ps)")
    case None
    then show ?thesis
      unfolding step co find_append properties_find [OF Cons.prems(1)]
      using Cons.IH [OF Cons.prems(1) rest] by simp
  next
    case (Some c)
    then show ?thesis
      unfolding step co find_append properties_find [OF Cons.prems(1)] by simp
  qed
qed

lemma looksLike_find:
  assumes "object_of object = Some a" and "holds_spec h spec entries"
  shows "looksLike h object spec =
           (case find (\<lambda>c. \<not> passes (members (cells h a)) c) (check_order entries) of
              None \<Rightarrow> (Inr JUndefined, h)
            | Some c \<Rightarrow> deliver h (stops (members (cells h a)) c))"
  using assms types_find [of object a h spec entries]
  by (simp add: looksLike_def holds_spec_def)

lemma looksLike_at_violation:
  assumes "object_of object = Some a" and "holds_spec h spec entries"
    and "check_order entries = before @ c # after"
    and "\<forall>x\<in>set before. passes (members (cells h a)) x"
    and "violates (members (cells h a)) c"
  shows "looksLike h object spec = new_Error h (failure (members (cells h a)) c)"
proof -
  from assms(4) have "\<forall>x\<in>set before. \<not> \<not> passes (members (cells h a)) x" by simp
  from find_first [OF assms(3) this violates_stops(1) [OF assms(5)]]
  have "find (\<lambda>c. \<not> passes (members (cells h a)) c) (check_order entries) = Some c" .
  with looksLike_find [OF assms(1,2)] violates_stops(2) [OF assms(5)] show ?thesis by simp
qed

section \<open>The outcome depends on the inputs only\<close>

lemma properties_transfer:
  assumes "same_inputs h h2 object spec"
  shows "(looksLike_properties h object type ps = None \<and>
          looksLike_properties h2 object type ps = None) \<or>
         (\<exists>v. looksLike_properties h object type ps = Some (deliver h v) \<and>
              looksLike_properties h2 object type ps = Some (deliver h2 v))"
proof (induction ps)
  case Nil
  show ?case by simp
next
  case (Cons p ps)
  show ?case
  proof (cases "object_of object")
    case None
    then have "looksLike_properties h object type (p # ps) = Some (deliver h (Raised TypeError))"
      and "looksLike_properties h2 object type (p # ps) = Some (deliver h2 (Raised TypeError))"
      by (simp_all add: has_property_def)
    then show ?thesis by blast
  next
    case (Some a)
    with assms have eq: "cells h2 a = cells h a" by (simp add: same_inputs_def)
    show ?thesis
    proof (cases "members (cells h a) p")
      case None
      with Some eq
      have "looksLike_properties h object type (p # ps) =
          Some (deliver h (Failure (MissingMember p)))"
        and "looksLike_properties h2 object type (p # ps) =
          Some (deliver h2 (Failure (MissingMember p)))"
        by (simp_all add: has_property_def)
      then show ?thesis by blast
    next
      case (Some m)
      show ?thesis
      proof (cases m)
        case (Throws e)
        with Some \<open>object_of object = Some a\<close> eq
        have "looksLike_properties h object type (p # ps) = Some (deliver h (Raised e))"
          and "looksLike_properties h2 object type (p # ps) = Some (deliver h2 (Raised e))"
          by (simp_all add: has_property_def get_def get_member_def)
        then show ?thesis by blast
      next
        case (Value v)
        show ?thesis
        proof (cases "typeof v = type")
          case True
          with Value Some \<open>object_of object = Some a\<close> eq
          have "looksLike_properties h object type (p # ps) =
              looksLike_properties h object type ps"
            and "looksLike_properties h2 object type (p # ps) =
              looksLike_properties h2 object type ps"
            by (simp_all add: has_property_def get_def get_member_def)
          with Cons.IH show ?thesis by simp
        next
          case False
          with Value Some \<open>object_of object = Some a\<close> eq
          have "looksLike_properties h object type (p # ps) =
              Some (deliver h (Failure (WrongKind p type)))"
            and "looksLike_properties h2 object type (p # ps) =
              Some (deliver h2 (Failure (WrongKind p type)))"
            by (simp_all add: has_property_def get_def get_member_def)
          then show ?thesis by blast
        qed
      qed
    qed
  qed
qed

lemma types_transfer:
  assumes "same_inputs h h2 object spec"
  shows "\<exists>v. looksLike_types h object spec ts = deliver h v \<and>
             looksLike_types h2 object spec ts = deliver h2 v"
proof (induction ts)
  case Nil
  have "looksLike_types h object spec [] = deliver h Pass"
    and "looksLike_types h2 object spec [] = deliver h2 Pass" by simp_all
  then show ?case by blast
next
  case (Cons t ts)
  from assms have g: "get_member h2 spec t = get_member h spec t"
    by (simp add: same_inputs_def get_member_def)
  show ?case
  proof (cases "get_member h spec t")
    case (Inl e)
    with g have "looksLike_types h object spec (t # ts) = deliver h (Raised e)"
      and "looksLike_types h2 object spec (t # ts) = deliver h2 (Raised e)"
      by simp_all
    then show ?thesis by blast
  next
    case (Inr entry)
    show ?thesis
    proof (cases "\<exists>s. entry = JString s")
      case False
      with Inr g have "looksLike_types h object spec (t # ts) = deliver h (Raised TypeError)"
        and "looksLike_types h2 object spec (t # ts) = deliver h2 (Raised TypeError)"
        by (auto split: js_value.splits)
      then show ?thesis by blast
    next
      case True
      then obtain s where s: "entry = JString s" by blast
      from properties_transfer [OF assms, of t "String_split s (CHR '' '')"]
      show ?thesis
      proof (elim disjE conjE exE)
        assume "looksLike_properties h object t (String_split s (CHR '' '')) = None"
          and "looksLike_properties h2 object t (String_split s (CHR '' '')) = None"
        with s Inr g Cons.IH show ?thesis by simp
      next
        fix v
        assume "looksLike_properties h object t (String_split s (CHR '' '')) =
            Some (deliver h v)"
          and "looksLike_properties h2 object t (String_split s (CHR '' '')) =
            Some (deliver h2 v)"
        with s Inr g have "looksLike_types h object spec (t # ts) = deliver h v"
          and "looksLike_types h2 object spec (t # ts) = deliver h2 v" by simp_all
        then show ?thesis by blast
      qed
    qed
  qed
qed

lemma looksLike_transfer:
  assumes "same_inputs h h2 object spec"
  shows "\<exists>v. looksLike h object spec = deliver h v \<and> looksLike h2 object spec = deliver h2 v"
proof -
  from assms have "names (cells h2 spec) = names (cells h spec)"
    by (simp add: same_inputs_def)
  with types_transfer [OF assms, of "names (cells h spec)"] show ?thesis
    by (simp add: looksLike_def)
qed

lemma same_inputs_refl: "same_inputs h h object spec"
  by (simp add: same_inputs_def split: option.splits)

lemma looksLike_deliver: "\<exists>v. looksLike h object spec = deliver h v"
  using looksLike_transfer [OF same_inputs_refl] by blast

lemma deliver_frame:
  assumes "deliver h v = (r, h')"
  shows "(\<forall>a<next_addr h. cells h' a = cells h a) \<and> next_addr h \<le> next_addr h' \<and>
         Object_prototype h' = Object_prototype h \<and> Error_prototype h' = Error_prototype h \<and>
         Array_prototype h' = Array_prototype h \<and> boxed h' = boxed h"
  using assms by (cases v) (auto simp: new_Error_def)

lemma deliver_same_inputs:
  assumes "deliver h v = (r, h')" and "spec < next_addr h"
    and "\<forall>a. object_of object = Some a \<longrightarrow> a < next_addr h"
  shows "same_inputs h h' object spec"
  using deliver_frame [OF assms(1)] assms(2,3)
  by (simp add: same_inputs_def split: option.splits)

section \<open>What getService returns\<close>

text \<open>
  Under an ordinary name the array gives back the service it was handed. Under the name
  \<^verbatim>\<open>length\<close> the assignment sets the length of the array: a service that is
  \<^verbatim>\<open>undefined\<close> converts to \<^verbatim>\<open>NaN\<close> and the assignment throws a
  RangeError.
\<close>

lemma getService_returns_service:
  assumes "resolve fw (snd (new_array h)) name = (Inr service, h2)"
    and "cells h2 (next_addr h) = cells (snd (new_array h)) (next_addr h)"
    and "name \<noteq> ''length''" and "Array_prototype h name = None"
  shows "fst (getService fw h name) = Inr service"
  using assms
  by (simp add: getService_def injectify_def new_array_def put_array_def define_own_def
      get_def get_member_def Let_def split: prod.splits)

lemma getService_length_undefined:
  assumes "resolve fw (snd (new_array h)) ''length'' = (Inr JUndefined, h2)"
  shows "getService fw h ''length'' = (Inl RangeError, h2)"
  using assms
  by (simp add: getService_def injectify_def new_array_def put_array_def set_length_def
      to_number_def split: prod.splits)

section \<open>The claims\<close>



text \<open>
  C2. When the first pair of the check order (the first name of the list under the
  first key) names a member the subject does not have, looksLike returns a MissingMember
  failure naming it, whatever the rest of the spec and of the subject are: the value
  returned is a new Error object, not \<^verbatim>\<open>undefined\<close>, its message is the text
  \<^verbatim>\<open>Expected object to have the property '<name>'.\<close> with the name of the member,
  and this text is the message of no other missing member and of no wrong kind.
\<close>

theorem looksLike_missing_member:
  assumes "object_of object = Some a"
    and "names (cells h spec) = type # types"
    and "members (cells h spec) type = Some (Value (JString listed))"
    and "String_split listed (CHR '' '') = property # properties"
    and "members (cells h a) property = None"
  shows "looksLike h object spec = new_Error h (MissingMember property) \<and>
         fst (looksLike h object spec) = Inr (JObject (next_addr h)) \<and>
         members (cells (snd (looksLike h object spec)) (next_addr h)) ''message'' =
           Some (Value (JString
             (''Expected object to have the property '' @ [CHR 0x27] @ property @
              [CHR 0x27] @ ''.''))) \<and>
         (\<forall>name. MissingMember name = MissingMember property \<longrightarrow> name = property) \<and>
         (\<forall>name kind. WrongKind name kind \<noteq> MissingMember property)"
proof -
  from assms have result: "looksLike h object spec = new_Error h (MissingMember property)"
    by (simp add: looksLike_def get_member_def has_property_def)
  have "members (cells (snd (looksLike h object spec)) (next_addr h)) ''message'' =
      Some (Value (JString (MissingMember property)))"
    by (simp add: result new_Error_fresh)
  then have msg: "members (cells (snd (looksLike h object spec)) (next_addr h)) ''message'' =
      Some (Value (JString
        (''Expected object to have the property '' @ [CHR 0x27] @ property @
         [CHR 0x27] @ ''.'')))"
    by (simp add: MissingMember_def)
  have fresh: "fst (looksLike h object spec) = Inr (JObject (next_addr h))"
    by (simp add: result new_Error_fresh)
  have other: "\<forall>name kind. WrongKind name kind \<noteq> MissingMember property"
    using MissingMember_not_WrongKind by metis
  from result fresh msg other MissingMember_inject show ?thesis by blast
qed

text \<open>Witness: \<^verbatim>\<open>looksLike({}, {"function": "foo"})\<close>.\<close>

theorem looksLike_missing_member_witness:
  "looksLike example_store (JObject 2) 3 = new_Error example_store (MissingMember ''foo'') \<and>
   fst (looksLike example_store (JObject 2) 3) = Inr (JObject 11) \<and>
   members (cells (snd (looksLike example_store (JObject 2) 3)) 11) ''message'' =
     Some (Value (JString
       (''Expected object to have the property '' @ [CHR 0x27] @ ''foo'' @ [CHR 0x27] @ ''.'')))"
proof -
  have at: "next_addr example_store = 11" by (simp add: example_store_def)
  from looksLike_missing_member [of "JObject 2" 2 example_store 3 "''function''" "[]"
      "''foo''" "''foo''" "[]"]
  show ?thesis unfolding at by (simp add: example_simps)
qed



text \<open>
  C4, as amended. With a spec whose entries are strings, looksLike raises in two
  situations and in no other. A subject that is not an object makes the
  \<^verbatim>\<open>in\<close> operator throw a TypeError at the first member name, so the call raises
  as soon as the spec has an entry. On an object, the read of a named member can throw (an
  accessor whose getter throws, such as \<^verbatim>\<open>caller\<close> of a strict-mode function);
  when every pair before that member passes, the getter's exception leaves looksLike.
  When the subject is an object and no named member throws on reading, looksLike returns,
  and with no entry in the spec it returns nothing for every subject.
\<close>

theorem looksLike_raises_exactly:
  assumes "holds_spec h spec entries"
  shows "(\<forall>a. object_of object = Some a \<and>
              (\<forall>c\<in>set (check_order entries). \<forall>e. members (cells h a) (snd c) \<noteq> Some (Throws e)) \<longrightarrow>
              (\<exists>v h'. looksLike h object spec = (Inr v, h'))) \<and>
         (\<forall>a before type property after e.
            object_of object = Some a \<and>
            check_order entries = before @ (type, property) # after \<and>
            (\<forall>c\<in>set before. passes (members (cells h a)) c) \<and>
            members (cells h a) property = Some (Throws e) \<longrightarrow>
            looksLike h object spec = (Inl e, h)) \<and>
         (\<forall>a e h'. object_of object = Some a \<and> looksLike h object spec = (Inl e, h') \<longrightarrow>
            h' = h \<and>
            (\<exists>before type property after.
               check_order entries = before @ (type, property) # after \<and>
               (\<forall>c\<in>set before. passes (members (cells h a)) c) \<and>
               members (cells h a) property = Some (Throws e))) \<and>
         (object_of object = None \<and> entries \<noteq> [] \<longrightarrow>
            looksLike h object spec = (Inl TypeError, h)) \<and>
         (entries = [] \<longrightarrow> looksLike h object spec = (Inr JUndefined, h))"
proof (intro conjI allI impI)
  fix a
  assume "object_of object = Some a \<and>
      (\<forall>c\<in>set (check_order entries). \<forall>e. members (cells h a) (snd c) \<noteq> Some (Throws e))"
  then have a: "object_of object = Some a"
    and quiet: "\<forall>c\<in>set (check_order entries). \<forall>e. members (cells h a) (snd c) \<noteq> Some (Throws e)"
    by simp_all
  show "\<exists>v h'. looksLike h object spec = (Inr v, h')"
  proof (cases "find (\<lambda>c. \<not> passes (members (cells h a)) c) (check_order entries)")
    case None
    with looksLike_find [OF a assms] show ?thesis by simp
  next
    case (Some c)
    then have "c \<in> set (check_order entries)" by (auto dest: find_decompose)
    with quiet have "stops (members (cells h a)) c = Failure (failure (members (cells h a)) c)"
      by (auto simp: stops_def split: option.splits js_member.splits)
    with Some looksLike_find [OF a assms] show ?thesis by (simp add: new_Error_def)
  qed
next
  fix a before type property after e
  assume "object_of object = Some a \<and>
      check_order entries = before @ (type, property) # after \<and>
      (\<forall>c\<in>set before. passes (members (cells h a)) c) \<and>
      members (cells h a) property = Some (Throws e)"
  then have a: "object_of object = Some a"
    and co: "check_order entries = before @ (type, property) # after"
    and ok: "\<forall>c\<in>set before. \<not> \<not> passes (members (cells h a)) c"
    and thr: "members (cells h a) property = Some (Throws e)" by simp_all
  from thr have "\<not> passes (members (cells h a)) (type, property)" by simp
  from find_first [OF co ok this] looksLike_find [OF a assms] thr
  show "looksLike h object spec = (Inl e, h)" by (simp add: stops_def)
next
  fix a e h'
  assume "object_of object = Some a \<and> looksLike h object spec = (Inl e, h')"
  then have a: "object_of object = Some a" and raised: "looksLike h object spec = (Inl e, h')"
    by simp_all
  from raised looksLike_find [OF a assms]
  obtain c where found: "find (\<lambda>c. \<not> passes (members (cells h a)) c) (check_order entries) = Some c"
    and d: "deliver h (stops (members (cells h a)) c) = (Inl e, h')"
    by (auto split: option.splits)
  from d have thr: "members (cells h a) (snd c) = Some (Throws e)" and same: "h' = h"
    by (auto simp: stops_def new_Error_def split: option.splits js_member.splits)
  from find_decompose [OF found] obtain before after
    where "check_order entries = before @ (fst c, snd c) # after"
      and "\<forall>x\<in>set before. passes (members (cells h a)) x" by auto
  with thr same show "h' = h"
    and "\<exists>before type property after.
        check_order entries = before @ (type, property) # after \<and>
        (\<forall>c\<in>set before. passes (members (cells h a)) c) \<and>
        members (cells h a) property = Some (Throws e)" by blast+
next
  assume "object_of object = None \<and> entries \<noteq> []"
  then have none: "object_of object = None" and "entries \<noteq> []" by simp_all
  then obtain type listed rest where e: "entries = (type, listed) # rest"
    by (cases entries) auto
  obtain p ps where ps: "String_split listed (CHR '' '') = p # ps"
    using split_from_not_Nil [of "[]" "CHR '' ''" listed]
    by (cases "String_split listed (CHR '' '')") (auto simp: String_split_def)
  from assms e have "names (cells h spec) = type # map fst rest"
    and "get_member h spec type = Inr (JString listed)"
    by (simp_all add: holds_spec_def get_member_def)
  with ps none show "looksLike h object spec = (Inl TypeError, h)"
    by (simp add: looksLike_def has_property_def)
next
  assume "entries = []"
  with assms show "looksLike h object spec = (Inr JUndefined, h)"
    by (simp add: looksLike_def holds_spec_def)
qed

text \<open>
  Witness: against \<^verbatim>\<open>{"function": "foo"}\<close> the object \<^verbatim>\<open>{foo: 1}\<close>
  gets a value back and the number 5 gets a TypeError; against
  \<^verbatim>\<open>{"number": "length", "function": "caller"}\<close> a strict-mode function passes
  \<^verbatim>\<open>length\<close> and the read of \<^verbatim>\<open>caller\<close> throws.
\<close>

theorem looksLike_raises_exactly_witness:
  "(\<exists>v h'. looksLike example_store (JObject 4) 3 = (Inr v, h')) \<and>
   looksLike example_store (JNumber 5) 3 = (Inl TypeError, example_store) \<and>
   looksLike strict_store (JFunction 5) 12 = (Inl TypeError, strict_store)"
proof -
  have spec3: "holds_spec example_store 3 [(''function'', ''foo'')]"
    by (simp add: example_simps)
  have spec12: "holds_spec strict_store 12 [(''number'', ''length''), (''function'', ''caller'')]"
    by (simp add: strict_store_def example_simps)
  have quiet: "\<forall>c\<in>set (check_order [(''function'', ''foo'')]).
      \<forall>e. members (cells example_store 4) (snd c) \<noteq> Some (Throws e)"
    by (simp add: example_simps)
  have order: "check_order [(''number'', ''length''), (''function'', ''caller'')] =
      [(''number'', ''length'')] @ (''function'', ''caller'') # []"
    by (simp add: example_simps)
  have length: "\<forall>c\<in>set [(''number'', ''length'')]. passes (members (cells strict_store 5)) c"
    by (simp add: strict_store_def)
  have caller: "members (cells strict_store 5) ''caller'' = Some (Throws TypeError)"
    by (simp add: strict_store_def)
  from looksLike_raises_exactly [OF spec3, of "JObject 4"] quiet
  have "\<exists>v h'. looksLike example_store (JObject 4) 3 = (Inr v, h')" by simp
  moreover from looksLike_raises_exactly [OF spec3, of "JNumber 5"]
  have "looksLike example_store (JNumber 5) 3 = (Inl TypeError, example_store)" by simp
  moreover
  have "object_of (JFunction 5) = Some 5 \<and>
      check_order [(''number'', ''length''), (''function'', ''caller'')] =
        [(''number'', ''length'')] @ (''function'', ''caller'') # [] \<and>
      (\<forall>c\<in>set [(''number'', ''length'')]. passes (members (cells strict_store 5)) c) \<and>
      members (cells strict_store 5) ''caller'' = Some (Throws TypeError)"
    using order length caller by simp
  with looksLike_raises_exactly [OF spec12, of "JFunction 5",
      THEN conjunct2, THEN conjunct1, rule_format,
      of 5 "[(''number'', ''length'')]" "''function''" "''caller''" "[]" TypeError]
  have "looksLike strict_store (JFunction 5) 12 = (Inl TypeError, strict_store)" .
  ultimately show ?thesis by blast
qed

text \<open>
  The claim as it stands, that looksLike completes normally for every subject, fails at
  \<^verbatim>\<open>looksLike(null, {"function": "foo"})\<close>: the call throws.
\<close>

theorem looksLike_null_subject_throws:
  "fst (looksLike example_store JNull 3) = Inl TypeError"
  by (simp add: example_simps)

text \<open>
  C5. Applied to a spec with no entries, looksLike returns nothing (pass) for every
  subject, object or not, and leaves the store as it is.
\<close>

theorem looksLike_empty_spec:
  assumes "names (cells h spec) = []"
  shows "looksLike h object spec = (Inr JUndefined, h)"
  using assms by (simp add: looksLike_def)

text \<open>Witness: \<^verbatim>\<open>looksLike(null, {})\<close>.\<close>

theorem looksLike_empty_spec_witness:
  "looksLike example_store JNull 2 = (Inr JUndefined, example_store)"
  using looksLike_empty_spec [of example_store 2 JNull]
  by (simp add: example_simps)

text \<open>
  C6. The list of member names is split at every single space and nowhere else: there
  is one name more than there are spaces, no name holds a space, and the names joined by
  single spaces are the list again. A list that begins or ends with a space, or has two
  spaces in a row, therefore yields the empty name, which is checked like any other
  name. A subject with no member of the empty name, none of whose named members throws on
  reading, gets a new Error back, never \<^verbatim>\<open>undefined\<close>. When the empty name is
  the first pair that does not pass, a subject with no member of that name gets the
  MissingMember failure whose message is \<^verbatim>\<open>Expected object to have the property ''.\<close>,
  the message of no other missing member, and a subject whose member of that name has
  another kind gets the WrongKind failure naming the empty string and the kind.
\<close>

theorem looksLike_empty_name:
  assumes "holds_spec h spec entries"
    and "(type, listed) \<in> set entries"
    and "stray_space listed"
    and "object_of object = Some a"
  shows "length (String_split listed (CHR '' '')) = Suc (count_list listed (CHR '' '')) \<and>
         (\<forall>name\<in>set (String_split listed (CHR '' '')). CHR '' '' \<notin> set name) \<and>
         concat (map ((#) (CHR '' '')) (String_split listed (CHR '' ''))) = CHR '' '' # listed \<and>
         [] \<in> set (String_split listed (CHR '' '')) \<and>
         (type, []) \<in> set (check_order entries) \<and>
         (members (cells h a) [] = None \<and>
          (\<forall>c\<in>set (check_order entries). \<forall>e. members (cells h a) (snd c) \<noteq> Some (Throws e)) \<longrightarrow>
            fst (looksLike h object spec) = Inr (JObject (next_addr h)) \<and>
            (\<exists>message. looksLike h object spec = new_Error h message)) \<and>
         (\<forall>before after.
            check_order entries = before @ (type, []) # after \<and>
            (\<forall>c\<in>set before. passes (members (cells h a)) c) \<longrightarrow>
            (members (cells h a) [] = None \<longrightarrow>
               looksLike h object spec = new_Error h (MissingMember []) \<and>
               fst (looksLike h object spec) = Inr (JObject (next_addr h)) \<and>
               members (cells (snd (looksLike h object spec)) (next_addr h)) ''message'' =
                 Some (Value (JString
                   (''Expected object to have the property '' @ [CHR 0x27, CHR 0x27] @ ''.''))) \<and>
               (\<forall>name. MissingMember name = MissingMember [] \<longrightarrow> name = [])) \<and>
            (\<forall>v. members (cells h a) [] = Some (Value v) \<and> typeof v \<noteq> type \<longrightarrow>
               looksLike h object spec = new_Error h (WrongKind [] type) \<and>
               fst (looksLike h object spec) = Inr (JObject (next_addr h)) \<and>
               members (cells (snd (looksLike h object spec)) (next_addr h)) ''message'' =
                 Some (Value (JString
                   (''Expected property '' @ [CHR 0x27, CHR 0x27] @
                    '' to be of type '' @ type @ ''.'')))))"
proof -
  let ?M = "members (cells h a)"
  have len: "length (String_split listed (CHR '' '')) = Suc (count_list listed (CHR '' ''))"
    by (simp add: String_split_def split_from_length)
  have clean: "\<forall>name\<in>set (String_split listed (CHR '' '')). CHR '' '' \<notin> set name"
    using split_from_no_sep [of "CHR '' ''" "[]" listed] by (simp add: String_split_def)
  have join: "concat (map ((#) (CHR '' '')) (String_split listed (CHR '' ''))) = CHR '' '' # listed"
    by (simp add: String_split_def split_from_join)
  have empty: "[] \<in> set (String_split listed (CHR '' ''))"
    using stray_space_empty_name [OF assms(3)] .
  have listed: "(type, []) \<in> set (check_order entries)"
    using check_order_member [OF assms(2) empty] .
  have some: "fst (looksLike h object spec) = Inr (JObject (next_addr h)) \<and>
      (\<exists>message. looksLike h object spec = new_Error h message)"
    if none: "?M [] = None"
      and quiet: "\<forall>c\<in>set (check_order entries). \<forall>e. ?M (snd c) \<noteq> Some (Throws e)"
  proof -
    from none have "\<not> passes ?M (type, [])" by simp
    with listed have "find (\<lambda>c. \<not> passes ?M c) (check_order entries) \<noteq> None"
      by (auto simp: find_None_iff)
    then obtain c where c: "find (\<lambda>c. \<not> passes ?M c) (check_order entries) = Some c"
      by blast
    then have "c \<in> set (check_order entries)" by (auto dest: find_decompose)
    with quiet have "stops ?M c = Failure (failure ?M c)"
      by (auto simp: stops_def split: option.splits js_member.splits)
    with c looksLike_find [OF assms(4,1)]
    have "looksLike h object spec = new_Error h (failure ?M c)" by simp
    then show ?thesis by (auto simp: new_Error_fresh)
  qed
  have missing: "looksLike h object spec = new_Error h (MissingMember []) \<and>
      fst (looksLike h object spec) = Inr (JObject (next_addr h)) \<and>
      members (cells (snd (looksLike h object spec)) (next_addr h)) ''message'' =
        Some (Value (JString
          (''Expected object to have the property '' @ [CHR 0x27, CHR 0x27] @ ''.''))) \<and>
      (\<forall>name. MissingMember name = MissingMember [] \<longrightarrow> name = [])"
    if co: "check_order entries = before @ (type, []) # after"
      and ok: "\<forall>c\<in>set before. passes ?M c" and none: "?M [] = None"
    for before after
  proof -
    from none have viol: "violates ?M (type, [])" by simp
    from looksLike_at_violation [OF assms(4,1) co ok viol] none
    have result: "looksLike h object spec = new_Error h (MissingMember [])" by simp
    have "members (cells (snd (looksLike h object spec)) (next_addr h)) ''message'' =
        Some (Value (JString (MissingMember [])))"
      by (simp add: result new_Error_fresh)
    then have msg: "members (cells (snd (looksLike h object spec)) (next_addr h)) ''message'' =
        Some (Value (JString
          (''Expected object to have the property '' @ [CHR 0x27, CHR 0x27] @ ''.'')))"
      by (simp add: MissingMember_def)
    have fresh: "fst (looksLike h object spec) = Inr (JObject (next_addr h))"
      by (simp add: result new_Error_fresh)
    from result fresh msg MissingMember_inject show ?thesis by blast
  qed
  have wrong: "looksLike h object spec = new_Error h (WrongKind [] type) \<and>
      fst (looksLike h object spec) = Inr (JObject (next_addr h)) \<and>
      members (cells (snd (looksLike h object spec)) (next_addr h)) ''message'' =
        Some (Value (JString
          (''Expected property '' @ [CHR 0x27, CHR 0x27] @ '' to be of type '' @ type @ ''.'')))"
    if co: "check_order entries = before @ (type, []) # after"
      and ok: "\<forall>c\<in>set before. passes ?M c"
      and v: "?M [] = Some (Value v) \<and> typeof v \<noteq> type"
    for before after v
  proof -
    from v have viol: "violates ?M (type, [])" by simp
    from looksLike_at_violation [OF assms(4,1) co ok viol] v
    have result: "looksLike h object spec = new_Error h (WrongKind [] type)" by simp
    have "members (cells (snd (looksLike h object spec)) (next_addr h)) ''message'' =
        Some (Value (JString (WrongKind [] type)))"
      by (simp add: result new_Error_fresh)
    then have msg: "members (cells (snd (looksLike h object spec)) (next_addr h)) ''message'' =
        Some (Value (JString
          (''Expected property '' @ [CHR 0x27, CHR 0x27] @ '' to be of type '' @ type @ ''.'')))"
      by (simp add: WrongKind_def)
    have fresh: "fst (looksLike h object spec) = Inr (JObject (next_addr h))"
      by (simp add: result new_Error_fresh)
    from result fresh msg show ?thesis by blast
  qed
  from len clean join empty listed some missing wrong show ?thesis by blast
qed

text \<open>
  Witness: \<^verbatim>\<open>{"function": "foo  bar"}\<close> asks for \<^verbatim>\<open>foo\<close>, the empty
  name and \<^verbatim>\<open>bar\<close>; \<^verbatim>\<open>{foo: function(){}, bar: "x"}\<close> has no member of
  the empty name.
\<close>

theorem looksLike_empty_name_witness:
  "String_split ''foo  bar'' (CHR '' '') = [''foo'', [], ''bar''] \<and>
   looksLike example_store (JObject 6) 8 = new_Error example_store (MissingMember []) \<and>
   fst (looksLike example_store (JObject 6) 8) = Inr (JObject 11) \<and>
   members (cells (snd (looksLike example_store (JObject 6) 8)) 11) ''message'' =
     Some (Value (JString
       (''Expected object to have the property '' @ [CHR 0x27, CHR 0x27] @ ''.'')))"
proof -
  have at: "next_addr example_store = 11" by (simp add: example_store_def)
  have spec8: "holds_spec example_store 8 [(''function'', ''foo  bar'')]"
    by (simp add: example_simps)
  have stray: "stray_space ''foo  bar''" by (simp add: stray_space_def)
  have order: "check_order [(''function'', ''foo  bar'')] =
      [(''function'', ''foo'')] @ (''function'', []) # [(''function'', ''bar'')]"
    by (simp add: example_simps)
  have foo: "\<forall>c\<in>set [(''function'', ''foo'')]. passes (members (cells example_store 6)) c"
    by (simp add: example_simps)
  have none: "members (cells example_store 6) [] = None"
    by (simp add: example_simps)
  have split: "String_split ''foo  bar'' (CHR '' '') = [''foo'', [], ''bar'']"
    by (simp add: String_split_def)
  have listed: "(''function'', ''foo  bar'') \<in> set [(''function'', ''foo  bar'')]" by simp
  have object: "object_of (JObject 6) = Some 6" by simp
  from order foo
  have "check_order [(''function'', ''foo  bar'')] =
        [(''function'', ''foo'')] @ (''function'', []) # [(''function'', ''bar'')] \<and>
      (\<forall>c\<in>set [(''function'', ''foo'')]. passes (members (cells example_store 6)) c)"
    by simp
  from looksLike_empty_name [OF spec8 listed stray object,
      THEN conjunct2, THEN conjunct2, THEN conjunct2, THEN conjunct2, THEN conjunct2,
      THEN conjunct2, rule_format, OF this, THEN conjunct1, rule_format, OF none]
  have "looksLike example_store (JObject 6) 8 = new_Error example_store (MissingMember []) \<and>
      fst (looksLike example_store (JObject 6) 8) = Inr (JObject (next_addr example_store)) \<and>
      members (cells (snd (looksLike example_store (JObject 6) 8)) (next_addr example_store))
        ''message'' =
        Some (Value (JString
          (''Expected object to have the property '' @ [CHR 0x27, CHR 0x27] @ ''.'')))"
    by blast
  from this [unfolded at] split show ?thesis by blast
qed

text \<open>
  C7. Given an argument that is not a string, each adapter returns exactly what
  looksLike returns, value and store: testController and testService on the argument
  itself, testScope on the \<^verbatim>\<open>$scope\<close> member of the context (a context whose
  member cannot be read, \<^verbatim>\<open>undefined\<close> or \<^verbatim>\<open>null\<close>, throws at the
  read).
\<close>

theorem adapters_forward:
  "(typeof controller \<noteq> ''string'' \<longrightarrow>
      testController fw h controller spec = looksLike h controller spec) \<and>
   (typeof service \<noteq> ''string'' \<longrightarrow>
      testService fw h service spec = looksLike h service spec) \<and>
   (typeof context \<noteq> ''string'' \<longrightarrow>
      testScope fw h context spec =
        (case get h context ''$scope'' of
           Inl e \<Rightarrow> (Inl e, h)
         | Inr scope \<Rightarrow> looksLike h scope spec)) \<and>
   (\<forall>a scope. object_of context = Some a \<and> get_member h a ''$scope'' = Inr scope \<longrightarrow>
      testScope fw h context spec = looksLike h scope spec)"
proof (intro conjI impI allI)
  assume "typeof controller \<noteq> ''string''"
  then show "testController fw h controller spec = looksLike h controller spec"
    by (cases controller) (simp_all add: testController_def)
next
  assume "typeof service \<noteq> ''string''"
  then show "testService fw h service spec = looksLike h service spec"
    by (cases service) (simp_all add: testService_def)
next
  assume "typeof context \<noteq> ''string''"
  then show "testScope fw h context spec =
      (case get h context ''$scope'' of
         Inl e \<Rightarrow> (Inl e, h)
       | Inr scope \<Rightarrow> looksLike h scope spec)"
    by (cases "context") (simp_all add: testScope_def)
next
  fix a scope
  assume "object_of context = Some a \<and> get_member h a ''$scope'' = Inr scope"
  then show "testScope fw h context spec = looksLike h scope spec"
    by (cases "context") (simp_all add: testScope_def get_def)
qed

text \<open>
  Witness: a controller, a service that is a function, and the test context at
  address 10, whose scope is the object at address 6.
\<close>

theorem adapters_forward_witness:
  "testController example_host example_store (JObject 4) 3 =
     looksLike example_store (JObject 4) 3 \<and>
   testService example_host example_store (JFunction 5) 3 =
     looksLike example_store (JFunction 5) 3 \<and>
   testScope example_host example_store (JObject 10) 7 =
     looksLike example_store (JObject 6) 7"
proof -
  have scope: "get_member example_store 10 ''$scope'' = Inr (JObject 6)"
    by (simp add: example_store_def blank_store_def plain_object_def get_member_def)
  from adapters_forward [of "JObject 4" example_host example_store 3 "JFunction 5" "JObject 10"]
  have "testController example_host example_store (JObject 4) 3 =
      looksLike example_store (JObject 4) 3"
    and "testService example_host example_store (JFunction 5) 3 =
      looksLike example_store (JFunction 5) 3" by simp_all
  moreover
  from adapters_forward [of "JObject 4" example_host example_store 7 "JFunction 5" "JObject 10"]
  have "testScope example_host example_store (JObject 10) 7 =
      looksLike example_store (JObject 6) 7"
    by (simp add: get_def scope)
  ultimately show ?thesis by simp
qed

text \<open>
  C8. looksLike is deterministic: a second call with the same subject and spec, made in
  the store the first call left behind, ends like the first one. Both return nothing, or
  both throw the same exception, or both return a new Error with the same message (and
  so of the same kind, naming the same member and expected kind). The inputs are live
  objects of the store.
\<close>

theorem looksLike_deterministic:
  assumes "spec < next_addr h"
    and "\<forall>a. object_of object = Some a \<longrightarrow> a < next_addr h"
    and "looksLike h object spec = (r1, h1)"
    and "looksLike h1 object spec = (r2, h2)"
  shows "(r1 = Inr JUndefined \<and> r2 = Inr JUndefined) \<or>
         (\<exists>e. r1 = Inl e \<and> r2 = Inl e) \<or>
         (\<exists>message. (r1, h1) = new_Error h message \<and> (r2, h2) = new_Error h1 message)"
proof -
  obtain v where v: "looksLike h object spec = deliver h v"
    using looksLike_deliver by blast
  with assms(3) have "deliver h v = (r1, h1)" by simp
  from deliver_same_inputs [OF this assms(1,2)] have "same_inputs h h1 object spec" .
  from looksLike_transfer [OF this] obtain w
    where w: "looksLike h object spec = deliver h w" "looksLike h1 object spec = deliver h1 w"
    by blast
  with assms(3,4) have first: "deliver h w = (r1, h1)" and second: "deliver h1 w = (r2, h2)"
    by simp_all
  show ?thesis
  proof (cases w)
    case Pass
    with first second show ?thesis by simp
  next
    case (Failure message)
    with first second
    have "(r1, h1) = new_Error h message \<and> (r2, h2) = new_Error h1 message" by simp
    then show ?thesis by blast
  next
    case (Raised e)
    with first second have "r1 = Inl e \<and> r2 = Inl e" by simp
    then show ?thesis by blast
  qed
qed

text \<open>
  Witness: \<^verbatim>\<open>looksLike({foo: 1}, {"function": "foo"})\<close> twice in a row; the
  second Error is another object with the same message.
\<close>

theorem looksLike_deterministic_witness:
  "\<exists>message.
     looksLike example_store (JObject 4) 3 = new_Error example_store message \<and>
     looksLike (snd (looksLike example_store (JObject 4) 3)) (JObject 4) 3 =
       new_Error (snd (looksLike example_store (JObject 4) 3)) message"
proof -
  have first: "looksLike example_store (JObject 4) 3 =
      new_Error example_store (WrongKind ''foo'' ''function'')"
    by (simp add: example_simps)
  have alloc: "3 < next_addr example_store"
    "\<forall>a. object_of (JObject 4) = Some a \<longrightarrow> a < next_addr example_store"
    by (simp_all add: example_store_def)
  from looksLike_deterministic [OF alloc, of "fst (looksLike example_store (JObject 4) 3)"
      "snd (looksLike example_store (JObject 4) 3)"
      "fst (looksLike (snd (looksLike example_store (JObject 4) 3)) (JObject 4) 3)"
      "snd (looksLike (snd (looksLike example_store (JObject 4) 3)) (JObject 4) 3)"]
  show ?thesis by (simp add: first new_Error_def)
qed

text \<open>
  C9. looksLike has no side effects: after a call every object that was allocated
  before it, the subject and the spec among them, has the names and members it had, and
  the prototypes and boxed members are the same; the only change to the store is the new
  Error, at a fresh address. The outcome depends on the two inputs only: in any other
  store where the subject and the spec have the same contents, the call ends the same way.
\<close>

theorem looksLike_no_side_effects:
  assumes "looksLike h object spec = (r, h')"
  shows "(\<forall>a<next_addr h. cells h' a = cells h a) \<and>
         Object_prototype h' = Object_prototype h \<and>
         Error_prototype h' = Error_prototype h \<and>
         Array_prototype h' = Array_prototype h \<and>
         boxed h' = boxed h \<and>
         (h' = h \<or> (\<exists>message. (r, h') = new_Error h message)) \<and>
         (\<forall>h2. same_inputs h h2 object spec \<longrightarrow>
            (r = Inr JUndefined \<and> looksLike h2 object spec = (Inr JUndefined, h2)) \<or>
            (\<exists>e. r = Inl e \<and> looksLike h2 object spec = (Inl e, h2)) \<or>
            (\<exists>message. (r, h') = new_Error h message \<and>
                        looksLike h2 object spec = new_Error h2 message))"
proof -
  obtain v where v: "looksLike h object spec = deliver h v"
    using looksLike_deliver by blast
  with assms have d: "deliver h v = (r, h')" by simp
  have only: "h' = h \<or> (\<exists>message. (r, h') = new_Error h message)"
  proof (cases v)
    case (Failure message)
    with d have "(r, h') = new_Error h message" by simp
    then show ?thesis by blast
  qed (use d in auto)
  have dep: "(r = Inr JUndefined \<and> looksLike h2 object spec = (Inr JUndefined, h2)) \<or>
            (\<exists>e. r = Inl e \<and> looksLike h2 object spec = (Inl e, h2)) \<or>
            (\<exists>message. (r, h') = new_Error h message \<and>
                        looksLike h2 object spec = new_Error h2 message)"
    if same: "same_inputs h h2 object spec" for h2
  proof -
    from looksLike_transfer [OF same] obtain w
      where w: "looksLike h object spec = deliver h w" "looksLike h2 object spec = deliver h2 w"
      by blast
    with assms have dw: "deliver h w = (r, h')" by simp
    show ?thesis
    proof (cases w)
      case Pass
      with dw w(2) have "r = Inr JUndefined \<and> looksLike h2 object spec = (Inr JUndefined, h2)"
        by simp
      then show ?thesis by blast
    next
      case (Failure message)
      with dw w(2) have "(r, h') = new_Error h message \<and>
          looksLike h2 object spec = new_Error h2 message" by simp
      then show ?thesis by blast
    next
      case (Raised e)
      with dw w(2) have "r = Inl e \<and> looksLike h2 object spec = (Inl e, h2)" by simp
      then show ?thesis by blast
    qed
  qed
  from deliver_frame [OF d] only dep show ?thesis by blast
qed

text \<open>
  Witness: after the failing call \<^verbatim>\<open>looksLike({foo: 1}, {"function": "foo"})\<close>
  the subject at address 4 and the spec at address 3 are what they were.
\<close>

theorem looksLike_no_side_effects_witness:
  "cells (snd (looksLike example_store (JObject 4) 3)) 4 = cells example_store 4 \<and>
   cells (snd (looksLike example_store (JObject 4) 3)) 3 = cells example_store 3 \<and>
   fst (looksLike example_store (JObject 4) 3) = Inr (JObject 11)"
proof -
  have result: "fst (looksLike example_store (JObject 4) 3) = Inr (JObject 11)"
    by (simp add: example_simps new_Error_def)
  from looksLike_no_side_effects [of example_store "JObject 4" 3
      "fst (looksLike example_store (JObject 4) 3)" "snd (looksLike example_store (JObject 4) 3)"]
  have "\<forall>a<next_addr example_store.
      cells (snd (looksLike example_store (JObject 4) 3)) a = cells example_store a"
    by simp
  moreover have "next_addr example_store = 11" by (simp add: example_store_def)
  ultimately show ?thesis using result by simp
qed

text \<open>
  C10. A member name listed under two different kinds, K1 before K2, with every other
  pair passing and the member present with a value: if the value has kind K1, the check
  under K1 passes and looksLike returns the WrongKind failure naming the member and K2;
  if it has any other kind (K2 or a third one), looksLike returns the WrongKind failure
  naming the member and K1. The value returned is a new Error object, its message is the
  text \<^verbatim>\<open>Expected property '<name>' to be of type <kind>.\<close> with that kind, and
  the messages for K1 and for K2 differ, so the message tells which kind was expected.
\<close>

theorem looksLike_member_under_two_kinds:
  assumes "object_of object = Some a"
    and "holds_spec h spec entries"
    and "check_order entries = xs @ (K1, m) # ys @ (K2, m) # zs"
    and "K1 \<noteq> K2"
    and "\<forall>c\<in>set xs. passes (members (cells h a)) c"
    and "\<forall>c\<in>set ys. c \<noteq> (K1, m) \<longrightarrow> passes (members (cells h a)) c"
    and "members (cells h a) m = Some (Value v)"
  shows "looksLike h object spec =
           new_Error h (WrongKind m (if typeof v = K1 then K2 else K1)) \<and>
         fst (looksLike h object spec) = Inr (JObject (next_addr h)) \<and>
         members (cells (snd (looksLike h object spec)) (next_addr h)) ''message'' =
           Some (Value (JString
             (''Expected property '' @ [CHR 0x27] @ m @ [CHR 0x27] @
              '' to be of type '' @ (if typeof v = K1 then K2 else K1) @ ''.''))) \<and>
         WrongKind m K1 \<noteq> WrongKind m K2 \<and>
         (\<forall>name. MissingMember name \<noteq> WrongKind m (if typeof v = K1 then K2 else K1))"
proof -
  let ?M = "members (cells h a)"
  let ?K = "if typeof v = K1 then K2 else K1"
  have result: "looksLike h object spec = new_Error h (WrongKind m ?K)"
  proof (cases "typeof v = K1")
    case True
    with assms(7) have ok1: "passes ?M (K1, m)" by simp
    from True assms(4,7) have viol: "violates ?M (K2, m)" by simp
    have co: "check_order entries = (xs @ (K1, m) # ys) @ (K2, m) # zs"
      using assms(3) by simp
    from assms(5,6) ok1 have "\<forall>c\<in>set (xs @ (K1, m) # ys). passes ?M c"
      by auto
    from looksLike_at_violation [OF assms(1,2) co this viol] assms(7) True
    show ?thesis by simp
  next
    case False
    with assms(7) have viol: "violates ?M (K1, m)" by simp
    from looksLike_at_violation [OF assms(1,2,3,5) viol] assms(7) False
    show ?thesis by simp
  qed
  have "members (cells (snd (looksLike h object spec)) (next_addr h)) ''message'' =
      Some (Value (JString (WrongKind m ?K)))"
    by (simp only: result new_Error_fresh)
  then have msg: "members (cells (snd (looksLike h object spec)) (next_addr h)) ''message'' =
      Some (Value (JString
        (''Expected property '' @ [CHR 0x27] @ m @ [CHR 0x27] @
         '' to be of type '' @ ?K @ ''.'')))"
    by (simp add: WrongKind_def)
  have fresh: "fst (looksLike h object spec) = Inr (JObject (next_addr h))"
    by (simp only: result new_Error_fresh)
  from assms(3) have "(K1, m) \<in> set (check_order entries)" by simp
  then have m: "CHR '' '' \<notin> set m" by (rule check_order_space_free)
  from WrongKind_inject [OF m m] assms(4) have differ: "WrongKind m K1 \<noteq> WrongKind m K2"
    by blast
  from result fresh msg differ MissingMember_not_WrongKind show ?thesis by blast
qed

text \<open>
  Witness: \<^verbatim>\<open>{"function": "foo", "number": "foo"}\<close> against a subject whose
  \<^verbatim>\<open>foo\<close> is a number (the failure names the kind function) and against one whose
  \<^verbatim>\<open>foo\<close> is a function (the failure names the kind number).
\<close>

theorem looksLike_member_under_two_kinds_witness:
  "looksLike example_store (JObject 4) 9 =
     new_Error example_store (WrongKind ''foo'' ''function'') \<and>
   looksLike example_store (JObject 6) 9 =
     new_Error example_store (WrongKind ''foo'' ''number'') \<and>
   members (cells (snd (looksLike example_store (JObject 4) 9)) 11) ''message'' =
     Some (Value (JString
       (''Expected property '' @ [CHR 0x27] @ ''foo'' @ [CHR 0x27] @
        '' to be of type function.''))) \<and>
   members (cells (snd (looksLike example_store (JObject 6) 9)) 11) ''message'' =
     Some (Value (JString
       (''Expected property '' @ [CHR 0x27] @ ''foo'' @ [CHR 0x27] @
        '' to be of type number.'')))"
proof -
  have at: "next_addr example_store = 11" by (simp add: example_store_def)
  from looksLike_member_under_two_kinds [of "JObject 4" 4 example_store 9
      "[(''function'', ''foo''), (''number'', ''foo'')]" "[]" "''function''" "''foo''" "[]"
      "''number''" "[]" "JNumber 1"]
    looksLike_member_under_two_kinds [of "JObject 6" 6 example_store 9
      "[(''function'', ''foo''), (''number'', ''foo'')]" "[]" "''function''" "''foo''" "[]"
      "''number''" "[]" "JFunction 5"]
  show ?thesis unfolding at by (simp add: example_simps)
qed

end
